theory Spec2Isabelle
  imports Complex_Main
begin

section \<open>Environmental logger: JSON to netCDF conversion\<close>

text \<open>
  A shallow embedding of \<^verbatim>\<open>environmental_logger_json2netcdf.py\<close>.  Python floats
  are modelled as exact rationals (\<^typ>\<open>rat\<close>), Python exceptions as values of
  the datatype \<open>error\<close> on the left of a sum, and \<^verbatim>\<open>float(...)\<close> applied to a JSON
  member that already holds a number as the identity.
\<close>

subsection \<open>Exceptions\<close>

datatype error =
    IndexError
  | KeyError string
  | TypeError
  | ValueError
  | AttributeError

subsection \<open>Python list and string primitives\<close>

text \<open>
  \<^verbatim>\<open>list.insert(i, x)\<close>: a negative index counts from the end, and the index is
  clamped to the range \<open>0 .. len\<close>.
\<close>

definition list_insert :: "int \<Rightarrow> 'a \<Rightarrow> 'a list \<Rightarrow> 'a list" where
  "list_insert i x xs =
     (let n = int (length xs);
          j = (if i < 0 then (if i + n < 0 then 0 else i + n) else (if n < i then n else i))
      in take (nat j) xs @ [x] @ drop (nat j) xs)"

text \<open>\<^verbatim>\<open>s.strip(chars)\<close> removes, at both ends, every character that occurs in \<open>chars\<close>.\<close>

definition strip :: "string \<Rightarrow> string \<Rightarrow> string" where
  "strip s chars =
     rev (dropWhile (\<lambda>c. c \<in> set chars) (rev (dropWhile (\<lambda>c. c \<in> set chars) s)))"

text \<open>\<^verbatim>\<open>s.endswith(suffix)\<close>\<close>

definition endswith :: "string \<Rightarrow> string \<Rightarrow> bool" where
  "endswith s suffix =
     (length suffix \<le> length s \<and> drop (length s - length suffix) s = suffix)"

text \<open>\<^verbatim>\<open>s.replace(" ", "_")\<close>\<close>

definition replace_space :: "string \<Rightarrow> string" where
  "replace_space s = map (\<lambda>c. if c = CHR '' '' then CHR ''_'' else c) s"

subsection \<open>Wavelength deltas (lines 343--346 of \<^verbatim>\<open>main\<close>)\<close>

text \<open>\<^verbatim>\<open>np.average([a, b])\<close>\<close>

definition average2 :: "rat \<Rightarrow> rat \<Rightarrow> rat" where
  "average2 a b = (a + b) / 2"

text \<open>
  \<^verbatim>\<open>wvl_ntf = [np.average([wvl_lgr[i], wvl_lgr[i+1]]) for i in range(len(wvl_lgr)-1)]\<close>
\<close>

definition wvl_ntf :: "rat list \<Rightarrow> rat list" where
  "wvl_ntf wvl_lgr =
     map (\<lambda>i. average2 (wvl_lgr ! i) (wvl_lgr ! (i + 1))) [0 ..< length wvl_lgr - 1]"

text \<open>
  \<^verbatim>\<open>delta = [wvl_ntf[i+1] - wvl_ntf[i] for i in range(len(wvl_ntf) - 1)]\<close>
\<close>

definition delta_interior :: "rat list \<Rightarrow> rat list" where
  "delta_interior ntf = map (\<lambda>i. ntf ! (i + 1) - ntf ! i) [0 ..< length ntf - 1]"

text \<open>
  The two \<^verbatim>\<open>delta.insert\<close> calls follow.  \<^verbatim>\<open>wvl_ntf[0]\<close> raises \<^verbatim>\<open>IndexError\<close> when
  there are fewer than two wavelengths; otherwise every index read is in range.
\<close>

definition delta :: "rat list \<Rightarrow> error + rat list" where
  "delta wvl_lgr =
     (let ntf = wvl_ntf wvl_lgr;
          d0 = delta_interior ntf
      in if ntf = [] then Inl IndexError
         else
           let d1 = list_insert 0 (2 * (ntf ! 0 - wvl_lgr ! 0)) d0
           in Inr (list_insert (- 1) (2 * (last wvl_lgr - last ntf)) d1))"

subsection \<open>Output file names (\<^verbatim>\<open>mainProgramTrigger\<close>)\<close>

text \<open>
  \<^verbatim>\<open>outputFileName = "".join((members.strip('.json'), '.nc'))\<close>, computed for the
  directory entries \<open>members\<close> whose path ends with \<^verbatim>\<open>.json\<close>.
\<close>

definition outputFileName :: "string \<Rightarrow> string" where
  "outputFileName members = strip members ''.json'' @ ''.nc''"

subsection \<open>Static tables\<close>

text \<open>
  A value of \<^verbatim>\<open>_UNIT_DICTIONARY\<close> is either a dictionary with the keys \<^verbatim>\<open>original\<close>,
  \<^verbatim>\<open>SI\<close> and \<^verbatim>\<open>power\<close>, or (for the key \<^verbatim>\<open>''\<close>) the string \<^verbatim>\<open>''\<close>.
\<close>

datatype unit_value =
    UnitDict (original: string) (SI: string) (power: rat)
  | UnitStr string

definition UNIT_DICTIONARY :: "string \<rightharpoonup> unit_value" where
  "UNIT_DICTIONARY = map_of
     [(''m'', UnitDict ''meter'' ''meter'' 1),
      (''hPa'', UnitDict ''hectopascal'' ''pascal'' 100),
      (''DegCelsius'', UnitDict ''celsius'' ''celsius'' 1),
      (''s'', UnitDict ''second'' ''second'' 1),
      (''m/s'', UnitDict ''meter second-1'' ''meter second-1'' 1),
      (''mm/h'', UnitDict ''millimeter hour-1'' ''meter second-1'' (278 / 1000000000)),
      (''relHumPerCent'', UnitDict ''percent'' ''percent'' 1),
      (''?mol/(m^2*s)'', UnitDict ''micromole meter-2 second-1'' ''mole second-1'' (1 / 1000000)),
      (''umol/(m^2*s)'', UnitDict ''micromole meter-2 second-1'' ''mole second-1'' (1 / 1000000)),
      (''kilo Lux'', UnitDict ''kiloLux'' ''lux'' 1000),
      (''degrees'', UnitDict ''degree'' ''degree'' 1),
      (''?s'', UnitDict ''microsecond'' ''second'' (1 / 1000000)),
      (''us'', UnitDict ''microsecond'' ''second'' (1 / 1000000)),
      (''ppm'', UnitDict ''part per million'' ''mol mol-1'' (1 / 1000000)),
      ('''', UnitStr '''')]"

definition NAMES :: "string \<rightharpoonup> string" where
  "NAMES = map_of
     [(''sensor par'', ''Photosynthetically Active Radiation''),
      (''sunDirection'', ''Solar zenith (or elevation) angle (under discussion right now)''),
      (''temperature'', ''Atmosperic Temperature''),
      (''relHumidity'', ''Relative Humidity''),
      (''precipitation'', ''Precipation Rate''),
      (''windDirection'', ''Wind Direction''),
      (''windVelocity'', ''Wind Speed'')]"

subsection \<open>\<^verbatim>\<open>renameTheValue\<close>\<close>

text \<open>\<^verbatim>\<open>sub in s\<close> on strings: \<open>sub\<close> occurs in \<open>s\<close> as a contiguous block.\<close>

fun startswith :: "string \<Rightarrow> string \<Rightarrow> bool" where
  "startswith s [] = True"
| "startswith [] (p # ps) = False"
| "startswith (c # cs) (p # ps) = (c = p \<and> startswith cs ps)"

fun str_in :: "string \<Rightarrow> string \<Rightarrow> bool" where
  "str_in sub [] = (sub = [])"
| "str_in sub (c # cs) = (startswith (c # cs) sub \<or> str_in sub cs)"

text \<open>
  The third test of the source is \<^verbatim>\<open>name in ("sensor co2" or "sensor par")\<close>; the
  parenthesised expression evaluates to \<^verbatim>\<open>"sensor co2"\<close>, so the test is a substring test
  against that one string.  A value taken from \<^verbatim>\<open>_UNIT_DICTIONARY\<close> that is a dictionary
  has no \<^verbatim>\<open>replace\<close> method (\<^verbatim>\<open>AttributeError\<close>).
\<close>

definition renameTheValue :: "string \<Rightarrow> error + string" where
  "renameTheValue name =
     (case UNIT_DICTIONARY name of
        Some (UnitStr s) \<Rightarrow> Inr (replace_space s)
      | Some (UnitDict _ _ _) \<Rightarrow> Inl AttributeError
      | None \<Rightarrow>
          (case NAMES name of
             Some n \<Rightarrow> Inr (replace_space n)
           | None \<Rightarrow>
               if str_in name ''sensor co2''
               then Inr (replace_space
                      (if endswith name ''co2'' then ''atmospherical CO2 concentration''
                       else ''photosynthetically active radiation''))
               else Inr (replace_space name)))"

subsection \<open>Readings\<close>

text \<open>
  A member of the weather station, or a top-level sensor entry, is a JSON object with the
  keys \<^verbatim>\<open>value\<close>, \<^verbatim>\<open>rawValue\<close> and \<^verbatim>\<open>unit\<close>; the spectrometer object carries the
  wavelength grid, the spectrum and the saturation threshold.  The objects whose keys the
  code looks up by a computed name are maps.
\<close>

record member =
  m_value :: rat
  m_rawValue :: rat
  m_unit :: string

record spectrometer_obj =
  wavelength :: "rat list"
  spectrum :: "rat list"
  maxFixedIntensity :: rat

record reading =
  timestamp :: string
  weather_station :: "string \<rightharpoonup> member"
  sensor_entries :: "string \<rightharpoonup> member"
  spectrometer :: spectrometer_obj

subsection \<open>Field extraction\<close>

text \<open>
  \<^verbatim>\<open>[float(valueMembers[...][dataName][...]) for valueMembers in arrayOfJSON]\<close>: the
  first reading without the entry raises \<^verbatim>\<open>KeyError\<close>.
\<close>

fun members_of :: "(reading \<Rightarrow> string \<rightharpoonup> member) \<Rightarrow> reading list \<Rightarrow> string \<Rightarrow> error + member list" where
  "members_of sel [] dataName = Inr []"
| "members_of sel (r # rs) dataName =
     (case sel r dataName of
        None \<Rightarrow> Inl (KeyError dataName)
      | Some m \<Rightarrow>
          (case members_of sel rs dataName of
             Inl e \<Rightarrow> Inl e
           | Inr ms \<Rightarrow> Inr (m # ms)))"

text \<open>
  The common body of \<^verbatim>\<open>getListOfWeatherStationValue\<close> and \<^verbatim>\<open>sensorVariables\<close>, which
  differ only in where the entry is looked up.  First the unit of the first reading is
  looked up in the table (\<^verbatim>\<open>IndexError\<close> on an empty batch, \<^verbatim>\<open>KeyError\<close> on a missing
  entry or an unknown unit); then the \<^verbatim>\<open>value\<close> members are collected; then
  \<^verbatim>\<open>converting_to["power"]\<close> is read, which raises \<^verbatim>\<open>TypeError\<close> when the table value is a
  string.  The result is (values, units, raw values).
\<close>

definition list_of_value ::
  "(reading \<Rightarrow> string \<rightharpoonup> member) \<Rightarrow> reading list \<Rightarrow> string \<Rightarrow> error + (rat list \<times> string list \<times> rat list)" where
  "list_of_value sel arrayOfJSON dataName =
     (case arrayOfJSON of
        [] \<Rightarrow> Inl IndexError
      | r0 # _ \<Rightarrow>
          (case sel r0 dataName of
             None \<Rightarrow> Inl (KeyError dataName)
           | Some m0 \<Rightarrow>
               (case UNIT_DICTIONARY (m_unit m0) of
                  None \<Rightarrow> Inl (KeyError (m_unit m0))
                | Some converting_to \<Rightarrow>
                    (case members_of sel arrayOfJSON dataName of
                       Inl e \<Rightarrow> Inl e
                     | Inr ms \<Rightarrow>
                         (case converting_to of
                            UnitStr _ \<Rightarrow> Inl TypeError
                          | UnitDict _ si p \<Rightarrow>
                              Inr (map (\<lambda>m. m_value m * p) ms,
                                   map (\<lambda>_. si) arrayOfJSON,
                                   map m_rawValue ms))))))"

definition getListOfWeatherStationValue ::
  "reading list \<Rightarrow> string \<Rightarrow> error + (rat list \<times> string list \<times> rat list)" where
  "getListOfWeatherStationValue arrayOfJSON dataName =
     list_of_value weather_station arrayOfJSON dataName"

definition sensorVariables ::
  "reading list \<Rightarrow> string \<Rightarrow> error + (rat list \<times> string list \<times> rat list)" where
  "sensorVariables JSONArray sensors = list_of_value sensor_entries JSONArray sensors"

subsection \<open>\<^verbatim>\<open>handleSpectrometer\<close>\<close>

definition handleSpectrometer ::
  "reading list \<Rightarrow> error + (rat list \<times> rat list list \<times> rat list)" where
  "handleSpectrometer JSONArray =
     (case JSONArray of
        [] \<Rightarrow> Inl IndexError
      | r0 # _ \<Rightarrow>
          Inr (wavelength (spectrometer r0),
               map (\<lambda>valueMembers. spectrum (spectrometer valueMembers)) JSONArray,
               map (\<lambda>valueMembers. maxFixedIntensity (spectrometer valueMembers)) JSONArray))"

subsection \<open>\<^verbatim>\<open>translateTime\<close>\<close>

text \<open>
  \<^verbatim>\<open>datetime.strptime(timeString, "%Y.%m.%d-%H:%M:%S")\<close> matches the string against the
  regular expression that the library builds from the format, directive by directive:
  \<^verbatim>\<open>%Y\<close> is \<^verbatim>\<open>\d\d\d\d\<close>, \<^verbatim>\<open>%m\<close> is \<^verbatim>\<open>1[0-2]|0[1-9]|[1-9]\<close>, \<^verbatim>\<open>%d\<close> is
  \<^verbatim>\<open>3[0-1]|[1-2]\d|0[1-9]|[1-9]| [1-9]\<close>, \<^verbatim>\<open>%H\<close> is \<^verbatim>\<open>2[0-3]|[0-1]\d|\d\<close>, \<^verbatim>\<open>%M\<close> is
  \<^verbatim>\<open>[0-5]\d|\d\<close> and \<^verbatim>\<open>%S\<close> is \<^verbatim>\<open>6[0-1]|[0-5]\d|\d\<close>.  Every directive is followed by a
  literal that is not a digit, or by the end of the string, so the first alternative that
  matches is the only one that can lead to a match of the whole.
\<close>

definition in_range :: "char \<Rightarrow> char \<Rightarrow> char \<Rightarrow> bool" where
  "in_range lo hi c = ((of_char lo :: nat) \<le> of_char c \<and> (of_char c :: nat) \<le> of_char hi)"

definition digit_val :: "char \<Rightarrow> nat" where
  "digit_val c = of_char c - 48"

definition two_digits :: "(char \<Rightarrow> bool) \<Rightarrow> (char \<Rightarrow> bool) \<Rightarrow> string \<Rightarrow> (nat \<times> string) option" where
  "two_digits p q s =
     (case s of
        c1 # c2 # rest \<Rightarrow>
          if p c1 \<and> q c2 then Some (10 * digit_val c1 + digit_val c2, rest) else None
      | _ \<Rightarrow> None)"

definition one_digit :: "(char \<Rightarrow> bool) \<Rightarrow> string \<Rightarrow> (nat \<times> string) option" where
  "one_digit p s =
     (case s of
        c # rest \<Rightarrow> if p c then Some (digit_val c, rest) else None
      | [] \<Rightarrow> None)"

definition space_digit :: "(char \<Rightarrow> bool) \<Rightarrow> string \<Rightarrow> (nat \<times> string) option" where
  "space_digit p s =
     (case s of
        c1 # c2 # rest \<Rightarrow>
          if c1 = CHR '' '' \<and> p c2 then Some (digit_val c2, rest) else None
      | _ \<Rightarrow> None)"

fun first_match :: "(string \<Rightarrow> 'a option) list \<Rightarrow> string \<Rightarrow> 'a option" where
  "first_match [] s = None"
| "first_match (p # ps) s = (case p s of Some r \<Rightarrow> Some r | None \<Rightarrow> first_match ps s)"

definition literal :: "char \<Rightarrow> string \<Rightarrow> string option" where
  "literal x s = (case s of c # rest \<Rightarrow> if c = x then Some rest else None | [] \<Rightarrow> None)"

definition directive_Y :: "string \<Rightarrow> (nat \<times> string) option" where
  "directive_Y s =
     (case s of
        c1 # c2 # c3 # c4 # rest \<Rightarrow>
          if in_range CHR ''0'' CHR ''9'' c1 \<and> in_range CHR ''0'' CHR ''9'' c2 \<and>
             in_range CHR ''0'' CHR ''9'' c3 \<and> in_range CHR ''0'' CHR ''9'' c4
          then Some (1000 * digit_val c1 + 100 * digit_val c2 + 10 * digit_val c3 + digit_val c4,
                     rest)
          else None
      | _ \<Rightarrow> None)"

definition directive_m :: "string \<Rightarrow> (nat \<times> string) option" where
  "directive_m = first_match
     [two_digits (\<lambda>c. c = CHR ''1'') (in_range CHR ''0'' CHR ''2''),
      two_digits (\<lambda>c. c = CHR ''0'') (in_range CHR ''1'' CHR ''9''),
      one_digit (in_range CHR ''1'' CHR ''9'')]"

definition directive_d :: "string \<Rightarrow> (nat \<times> string) option" where
  "directive_d = first_match
     [two_digits (\<lambda>c. c = CHR ''3'') (in_range CHR ''0'' CHR ''1''),
      two_digits (in_range CHR ''1'' CHR ''2'') (in_range CHR ''0'' CHR ''9''),
      two_digits (\<lambda>c. c = CHR ''0'') (in_range CHR ''1'' CHR ''9''),
      one_digit (in_range CHR ''1'' CHR ''9''),
      space_digit (in_range CHR ''1'' CHR ''9'')]"

definition directive_H :: "string \<Rightarrow> (nat \<times> string) option" where
  "directive_H = first_match
     [two_digits (\<lambda>c. c = CHR ''2'') (in_range CHR ''0'' CHR ''3''),
      two_digits (in_range CHR ''0'' CHR ''1'') (in_range CHR ''0'' CHR ''9''),
      one_digit (in_range CHR ''0'' CHR ''9'')]"

definition directive_M :: "string \<Rightarrow> (nat \<times> string) option" where
  "directive_M = first_match
     [two_digits (in_range CHR ''0'' CHR ''5'') (in_range CHR ''0'' CHR ''9''),
      one_digit (in_range CHR ''0'' CHR ''9'')]"

definition directive_S :: "string \<Rightarrow> (nat \<times> string) option" where
  "directive_S = first_match
     [two_digits (\<lambda>c. c = CHR ''6'') (in_range CHR ''0'' CHR ''1''),
      two_digits (in_range CHR ''0'' CHR ''5'') (in_range CHR ''0'' CHR ''9''),
      one_digit (in_range CHR ''0'' CHR ''9'')]"

text \<open>
  The match of the whole format, a failed step failing the whole; text left over after
  \<^verbatim>\<open>%S\<close> is the library's ``unconverted data remains'' failure.
\<close>

definition match_format :: "string \<Rightarrow> (nat \<times> nat \<times> nat \<times> nat \<times> nat \<times> nat) option" where
  "match_format s0 =
     Option.bind (directive_Y s0) (\<lambda>(Y, s1).
     Option.bind (literal CHR ''.'' s1) (\<lambda>s2.
     Option.bind (directive_m s2) (\<lambda>(m, s3).
     Option.bind (literal CHR ''.'' s3) (\<lambda>s4.
     Option.bind (directive_d s4) (\<lambda>(d, s5).
     Option.bind (literal CHR ''-'' s5) (\<lambda>s6.
     Option.bind (directive_H s6) (\<lambda>(H, s7).
     Option.bind (literal CHR '':'' s7) (\<lambda>s8.
     Option.bind (directive_M s8) (\<lambda>(M, s9).
     Option.bind (literal CHR '':'' s9) (\<lambda>s10.
     Option.bind (directive_S s10) (\<lambda>(S, s11).
     if s11 = [] then Some (Y, m, d, H, M, S) else None)))))))))))"

text \<open>The proleptic Gregorian calendar of the \<^verbatim>\<open>datetime\<close> module.\<close>

definition is_leap :: "nat \<Rightarrow> bool" where
  "is_leap y = (y mod 4 = 0 \<and> (y mod 100 \<noteq> 0 \<or> y mod 400 = 0))"

definition days_in_month :: "nat \<Rightarrow> nat \<Rightarrow> nat" where
  "days_in_month y m =
     (if m = 2 \<and> is_leap y then 29
      else [0, 31, 28, 31, 30, 31, 30, 31, 31, 30, 31, 30, 31] ! m)"

definition days_before_year :: "nat \<Rightarrow> nat" where
  "days_before_year y =
     (let y1 = y - 1 in y1 * 365 + y1 div 4 - y1 div 100 + y1 div 400)"

definition days_before_month :: "nat \<Rightarrow> nat \<Rightarrow> nat" where
  "days_before_month y m =
     [0, 0, 31, 59, 90, 120, 151, 181, 212, 243, 273, 304, 334] ! m
       + (if 2 < m \<and> is_leap y then 1 else 0)"

definition ymd2ord :: "nat \<Rightarrow> nat \<Rightarrow> nat \<Rightarrow> nat" where
  "ymd2ord y m d = days_before_year y + days_before_month y m + d"

text \<open>
  After the match the library builds the \<^verbatim>\<open>datetime\<close>; a year \<open>0\<close>, a day beyond the
  month's length and a second above \<open>59\<close> raise \<^verbatim>\<open>ValueError\<close>, as a failed match does.
\<close>

definition strptime :: "string \<Rightarrow> error + (nat \<times> nat \<times> nat \<times> nat \<times> nat \<times> nat)" where
  "strptime s =
     (case match_format s of
        None \<Rightarrow> Inl ValueError
      | Some (Y, m, d, H, M, S) \<Rightarrow>
          if 1 \<le> Y \<and> d \<le> days_in_month Y m \<and> S \<le> 59
          then Inr (Y, m, d, H, M, S) else Inl ValueError)"

text \<open>
  \<^verbatim>\<open>timeSplit\<close> is the difference of the date and \<^verbatim>\<open>_UNIX_BASETIME = date(1970, 1, 1)\<close>, a
  whole number of days, and \<^verbatim>\<open>total_seconds()\<close> is that number times \<open>86400\<close>.
\<close>

definition translateTime :: "string \<Rightarrow> error + rat" where
  "translateTime timeString =
     (case strptime timeString of
        Inl e \<Rightarrow> Inl e
      | Inr (tm_year, tm_mon, tm_mday, tm_hour, tm_min, tm_sec) \<Rightarrow>
          let timeSplit_days = int (ymd2ord tm_year tm_mon tm_mday) - int (ymd2ord 1970 1 1)
          in Inr ((of_int (timeSplit_days * 86400) + of_nat tm_hour * 3600
                     + of_nat tm_min * 60 + of_nat tm_sec) / (3600 * 24)))"

text \<open>
  The strings of the fixed format \<^verbatim>\<open>YYYY.MM.DD-HH:MM:SS\<close>: zero-padded decimal fields,
  as \<^verbatim>\<open>strftime\<close> writes them for the format string above.
\<close>

definition digit_char :: "nat \<Rightarrow> char" where
  "digit_char n = ''0123456789'' ! n"

definition pad2 :: "nat \<Rightarrow> string" where
  "pad2 n = [digit_char (n div 10), digit_char (n mod 10)]"

definition pad4 :: "nat \<Rightarrow> string" where
  "pad4 n = [digit_char (n div 1000), digit_char (n div 100 mod 10),
             digit_char (n div 10 mod 10), digit_char (n mod 10)]"

definition format_timestamp :: "nat \<Rightarrow> nat \<Rightarrow> nat \<Rightarrow> nat \<Rightarrow> nat \<Rightarrow> nat \<Rightarrow> string" where
  "format_timestamp Y m d H M S =
     pad4 Y @ ''.'' @ pad2 m @ ''.'' @ pad2 d @ ''-'' @ pad2 H @ '':'' @ pad2 M @ '':'' @ pad2 S"

subsection \<open>Downwelling flux\<close>

text \<open>
  Modelled from the spec: \<^verbatim>\<open>calculateDownwellingSpectralFlux\<close> is imported from the module
  \<^verbatim>\<open>environmental_logger_calculation\<close>, whose source is not at hand; \<^verbatim>\<open>main\<close> only calls
  it.  The definition follows the contract of the Downwelling Flux Calculator: the
  calibration curve must be as long as the wavelength grid (\<^verbatim>\<open>CalibrationShapeError\<close>
  otherwise); the spectral flux of reading \<open>i\<close> in channel \<open>j\<close> is
  \<open>spectra[i][j] * calibrationCurve[j] / (integrationTimeSeconds * sensorAreaM2)\<close>; the
  scalar flux of reading \<open>i\<close> is the sum over the channels of the spectral flux times the
  channel's delta.
\<close>

datatype flux_error = CalibrationShapeError

definition calculateDownwellingSpectralFlux ::
  "rat list \<Rightarrow> rat list list \<Rightarrow> rat list \<Rightarrow> rat list \<Rightarrow> rat \<Rightarrow> rat
     \<Rightarrow> flux_error + (rat list list \<times> rat list)" where
  "calculateDownwellingSpectralFlux wavelengths spectra deltas calibrationCurve
       integrationTimeSeconds sensorAreaM2 =
     (if length calibrationCurve \<noteq> length wavelengths then Inl CalibrationShapeError
      else
        let spectralFlux =
              map (\<lambda>row. map2 (\<lambda>s c. s * c / (integrationTimeSeconds * sensorAreaM2))
                     row calibrationCurve) spectra;
            scalarFlux = map (\<lambda>flux. sum_list (map2 (\<lambda>f d. f * d) flux deltas)) spectralFlux
        in Inr (spectralFlux, scalarFlux))"

section \<open>Properties\<close>

subsection \<open>Wavelength deltas\<close>

lemma length_wvl_ntf: "length (wvl_ntf ws) = length ws - 1"
  by (simp add: wvl_ntf_def)

lemma length_delta_interior: "length (delta_interior ms) = length ms - 1"
  by (simp add: delta_interior_def)

lemma length_list_insert: "length (list_insert i x xs) = Suc (length xs)"
  by (simp add: list_insert_def Let_def)

lemma wvl_ntf_empty_iff: "wvl_ntf ws = [] \<longleftrightarrow> length ws < 2"
proof -
  have "wvl_ntf ws = [] \<longleftrightarrow> length (wvl_ntf ws) = 0" by simp
  also have "\<dots> \<longleftrightarrow> length ws < 2" unfolding length_wvl_ntf by arith
  finally show ?thesis .
qed

lemma delta_uniform_example: "delta [1, 2, 3, 4] = Inr [1, 1, 1, 1]"
  by (simp add: delta_def wvl_ntf_def delta_interior_def list_insert_def average2_def
      Let_def upt_rec)

text \<open>
  C1.  The claim places the upper edge delta \<open>2 * (last wavelength - last midpoint)\<close> in the
  last position.  On the strictly increasing grid \<open>[1, 2, 3, 5]\<close> (midpoints
  \<open>[3/2, 5/2, 4]\<close>, interior deltas \<open>[1, 3/2]\<close>, upper edge delta \<open>2\<close>) the code returns
  \<open>[1, 1, 2, 3/2]\<close>: \<^verbatim>\<open>insert(-1, ...)\<close> puts the edge delta before the last interior
  delta, so the last element is \<open>3/2\<close> and not \<open>2\<close>.
\<close>

theorem delta_last_edge_misplaced:
  "sorted_wrt (<) [1, 2, 3, 5 :: rat] \<and>
   wvl_ntf [1, 2, 3, 5] = [3/2, 5/2, 4] \<and>
   delta [1, 2, 3, 5] = Inr [1, 1, 2, 3/2] \<and>
   2 * (last [1, 2, 3, 5] - last (wvl_ntf [1, 2, 3, 5])) = 2"
  by (simp add: delta_def wvl_ntf_def delta_interior_def list_insert_def average2_def
      Let_def upt_rec)

text \<open>
  C8 as stated fails: a decreasing grid and a two-point grid are both accepted
  and yield deltas; no grid check exists.
\<close>

theorem delta_invalid_grid_counterexample:
  "\<not> sorted_wrt (<) [3, 2, 1 :: rat] \<and> delta [3, 2, 1] = Inr [- 1, - 1, - 1] \<and>
   length [1, 2 :: rat] < 3 \<and> delta [1, 2] = Inr [1, 1]"
  by (simp add: delta_def wvl_ntf_def delta_interior_def list_insert_def average2_def
      Let_def upt_rec)

text \<open>
  C8, amended.  The delta computation fails exactly when the grid has fewer than two
  entries, and then with \<^verbatim>\<open>IndexError\<close>; on every grid of at least two entries, increasing
  or not, it returns a sequence of the same length.
\<close>

theorem delta_error_iff_short:
  "(delta ws = Inl IndexError \<longleftrightarrow> length ws < 2) \<and>
   (2 \<le> length ws \<longrightarrow> (\<exists>ds. delta ws = Inr ds \<and> length ds = length ws))"
proof (cases "length ws < 2")
  case True
  then have "wvl_ntf ws = []" by (simp add: wvl_ntf_empty_iff)
  then have "delta ws = Inl IndexError" by (simp add: delta_def Let_def)
  with True show ?thesis by simp
next
  case False
  then have ne: "wvl_ntf ws \<noteq> []" by (simp add: wvl_ntf_empty_iff)
  define ds where "ds = list_insert (- 1) (2 * (last ws - last (wvl_ntf ws)))
      (list_insert 0 (2 * (wvl_ntf ws ! 0 - ws ! 0)) (delta_interior (wvl_ntf ws)))"
  from ne have eq: "delta ws = Inr ds" by (simp add: delta_def Let_def ds_def)
  from False have "length ds = length ws"
    by (simp add: ds_def length_list_insert length_delta_interior length_wvl_ntf)
  with eq False show ?thesis by simp
qed

theorem delta_error_iff_short_witness:
  "(delta [3, 2, 1] \<noteq> Inl IndexError) \<and>
   (\<exists>ds. delta [3, 2, 1] = Inr ds \<and> length ds = 3) \<and>
   delta [7] = Inl IndexError"
  using delta_error_iff_short [of "[3, 2, 1]"] delta_error_iff_short [of "[7]"]
  by (simp add: numeral_3_eq_3)

subsection \<open>Output file names\<close>

text \<open>
  C9.  \<^verbatim>\<open>strip('.json')\<close> removes the characters \<open>.\<close>, \<open>j\<close>, \<open>s\<close>, \<open>o\<close>, \<open>n\<close> from both
  ends of the name, not the extension: \<^verbatim>\<open>session.json\<close> is exported as \<^verbatim>\<open>essi.nc\<close>.
\<close>

theorem outputFileName_session:
  "endswith ''session.json'' ''.json'' \<and> outputFileName ''session.json'' = ''essi.nc''"
  by (simp add: outputFileName_def strip_def endswith_def)

subsection \<open>Renaming\<close>

lemma startswith_iff: "startswith s p \<longleftrightarrow> (\<exists>ss. s = p @ ss)"
  by (induction s p rule: startswith.induct) auto

lemma str_in_iff: "str_in sub s \<longleftrightarrow> (\<exists>ps ss. s = ps @ sub @ ss)"
proof (induction s)
  case Nil
  then show ?case by auto
next
  case (Cons c cs)
  show ?case
  proof
    assume "str_in sub (c # cs)"
    then consider "startswith (c # cs) sub" | "str_in sub cs" by auto
    then show "\<exists>ps ss. c # cs = ps @ sub @ ss"
    proof cases
      case 1
      then obtain ss where "c # cs = sub @ ss" by (auto simp: startswith_iff)
      then have "c # cs = [] @ sub @ ss" by simp
      then show ?thesis by blast
    next
      case 2
      with Cons obtain ps ss where "cs = ps @ sub @ ss" by auto
      then have "c # cs = (c # ps) @ sub @ ss" by simp
      then show ?thesis by blast
    qed
  next
    assume "\<exists>ps ss. c # cs = ps @ sub @ ss"
    then obtain ps ss where eq: "c # cs = ps @ sub @ ss" by blast
    show "str_in sub (c # cs)"
    proof (cases ps)
      case Nil
      with eq have "startswith (c # cs) sub" by (auto simp: startswith_iff)
      then show ?thesis by simp
    next
      case (Cons p ps')
      with eq have "cs = ps' @ sub @ ss" by simp
      with Cons.IH have "str_in sub cs" by blast
      then show ?thesis by simp
    qed
  qed
qed

lemma str_in_length: "str_in sub s \<Longrightarrow> length sub \<le> length s"
  by (auto simp: str_in_iff)

lemma length_replace_space: "length (replace_space s) = length s"
  by (simp add: replace_space_def)

text \<open>
  C10.  For a key that is in neither the unit table nor the long-name table, the result
  is the key with spaces replaced by underscores exactly when the key does not occur in
  \<^verbatim>\<open>"sensor co2"\<close> as a contiguous substring; when it does occur, the result is
  \<^verbatim>\<open>atmospherical_CO2_concentration\<close> if the key ends with \<^verbatim>\<open>co2\<close> and
  \<^verbatim>\<open>photosynthetically_active_radiation\<close> otherwise.
\<close>

theorem renameTheValue_unlisted:
  assumes "UNIT_DICTIONARY name = None" and "NAMES name = None"
  shows "(renameTheValue name = Inr (replace_space name) \<longleftrightarrow> \<not> str_in name ''sensor co2'') \<and>
         (str_in name ''sensor co2'' \<longrightarrow>
            renameTheValue name =
              Inr (if endswith name ''co2'' then ''atmospherical_CO2_concentration''
                   else ''photosynthetically_active_radiation''))"
proof (cases "str_in name ''sensor co2''")
  case False
  with assms show ?thesis by (simp add: renameTheValue_def)
next
  case True
  then have len: "length name \<le> 10" using str_in_length by fastforce
  from True assms have r: "renameTheValue name =
      Inr (if endswith name ''co2'' then ''atmospherical_CO2_concentration''
           else ''photosynthetically_active_radiation'')"
    by (simp add: renameTheValue_def replace_space_def)
  have "length (replace_space name) \<noteq> length ''atmospherical_CO2_concentration''"
       "length (replace_space name) \<noteq> length ''photosynthetically_active_radiation''"
    using len by (simp_all add: length_replace_space)
  then have "replace_space name \<noteq> ''atmospherical_CO2_concentration''"
       "replace_space name \<noteq> ''photosynthetically_active_radiation''"
    by fastforce+
  with r True show ?thesis by auto
qed

theorem renameTheValue_unlisted_witness:
  "UNIT_DICTIONARY ''sensor c'' = None \<and> NAMES ''sensor c'' = None \<and>
   str_in ''sensor c'' ''sensor co2'' \<and>
   renameTheValue ''sensor c'' = Inr ''photosynthetically_active_radiation'' \<and>
   renameTheValue ''sensor c'' \<noteq> Inr ''sensor_c''"
proof -
  have h1: "UNIT_DICTIONARY ''sensor c'' = None" by (simp add: UNIT_DICTIONARY_def)
  have h2: "NAMES ''sensor c'' = None" by (simp add: NAMES_def)
  have h3: "str_in ''sensor c'' ''sensor co2''" by simp
  have h4: "\<not> endswith ''sensor c'' ''co2''" by (simp add: endswith_def)
  have h5: "replace_space ''sensor c'' = ''sensor_c''" by (simp add: replace_space_def)
  from renameTheValue_unlisted [OF h1 h2] h1 h2 h3 h4 h5 show ?thesis by simp
qed

subsection \<open>Field extraction\<close>

lemma members_of_all:
  "(\<forall>r\<in>set b. sel r name \<noteq> None) \<Longrightarrow>
   members_of sel b name = Inr (map (\<lambda>r. the (sel r name)) b)"
  by (induction b) auto

lemma list_of_value_ok:
  assumes "b \<noteq> []" and "\<forall>r\<in>set b. sel r name \<noteq> None"
    and "UNIT_DICTIONARY (m_unit (the (sel (hd b) name))) = Some (UnitDict og si p)"
  shows "list_of_value sel b name =
         Inr (map (\<lambda>r. m_value (the (sel r name)) * p) b,
              replicate (length b) si,
              map (\<lambda>r. m_rawValue (the (sel r name))) b)"
proof -
  from assms(1) obtain r0 rs where b: "b = r0 # rs" by (cases b) auto
  with assms(2) obtain m0 where m0: "sel r0 name = Some m0" by auto
  from assms(3) b m0 have u: "UNIT_DICTIONARY (m_unit m0) = Some (UnitDict og si p)" by simp
  have ms: "members_of sel b name = Inr (map (\<lambda>r. the (sel r name)) b)"
    using assms(2) by (rule members_of_all)
  have "list_of_value sel (r0 # rs) name =
         Inr (map (\<lambda>r. m_value (the (sel r name)) * p) (r0 # rs),
              replicate (length (r0 # rs)) si,
              map (\<lambda>r. m_rawValue (the (sel r name))) (r0 # rs))"
    using m0 u ms [unfolded b]
    by (simp add: list_of_value_def map_replicate_const comp_def del: members_of.simps)
  then show ?thesis by (simp only: b)
qed

lemma list_of_value_unknown_unit:
  assumes "sel r0 name = Some m0" and "UNIT_DICTIONARY (m_unit m0) = None"
  shows "list_of_value sel (r0 # rs) name = Inl (KeyError (m_unit m0))"
  using assms by (simp add: list_of_value_def)

text \<open>
  C3 as stated fails: the converted values are computed from the \<^verbatim>\<open>value\<close> member of
  each reading, not from its \<^verbatim>\<open>rawValue\<close> member.  With value \<open>5\<close>, raw value \<open>1\<close> and
  unit \<^verbatim>\<open>hPa\<close> (scale \<open>100\<close>) the result holds \<open>500\<close>, not \<open>1 * 100\<close>.
\<close>

theorem field_extractor_value_not_raw_counterexample:
  "getListOfWeatherStationValue
     [\<lparr>timestamp = ''2016.04.07-12:00:07'',
       weather_station = [''airPressure'' \<mapsto> \<lparr>m_value = 5, m_rawValue = 1, m_unit = ''hPa''\<rparr>],
       sensor_entries = Map.empty,
       spectrometer = \<lparr>wavelength = [], spectrum = [], maxFixedIntensity = 0\<rparr>\<rparr>]
     ''airPressure''
   = Inr ([500], [''pascal''], [1]) \<and> (500 :: rat) \<noteq> 1 * 100"
  by (simp add: getListOfWeatherStationValue_def list_of_value_def UNIT_DICTIONARY_def)

text \<open>
  C3, amended.  On a non-empty batch in which every reading has the field, and where the
  unit recorded on the first reading has a table entry with scale \<open>p\<close> and SI name \<open>si\<close>,
  both extractors return: the \<^verbatim>\<open>value\<close> members times \<open>p\<close>, in batch order; the SI
  name once per reading; and the \<^verbatim>\<open>rawValue\<close> members unchanged, in batch order.
\<close>

theorem field_extractor_values:
  "(b \<noteq> [] \<and> (\<forall>r\<in>set b. weather_station r name \<noteq> None) \<and>
    UNIT_DICTIONARY (m_unit (the (weather_station (hd b) name))) = Some (UnitDict og si p) \<longrightarrow>
      getListOfWeatherStationValue b name =
        Inr (map (\<lambda>r. m_value (the (weather_station r name)) * p) b,
             replicate (length b) si,
             map (\<lambda>r. m_rawValue (the (weather_station r name))) b)) \<and>
   (b \<noteq> [] \<and> (\<forall>r\<in>set b. sensor_entries r name \<noteq> None) \<and>
    UNIT_DICTIONARY (m_unit (the (sensor_entries (hd b) name))) = Some (UnitDict og si p) \<longrightarrow>
      sensorVariables b name =
        Inr (map (\<lambda>r. m_value (the (sensor_entries r name)) * p) b,
             replicate (length b) si,
             map (\<lambda>r. m_rawValue (the (sensor_entries r name))) b))"
  unfolding getListOfWeatherStationValue_def sensorVariables_def
  using list_of_value_ok [of b weather_station name og si p]
        list_of_value_ok [of b sensor_entries name og si p]
  by blast


theorem field_extractor_values_witness:
  "getListOfWeatherStationValue
     [\<lparr>timestamp = ''2016.04.07-12:00:07'',
       weather_station = [''airPressure'' \<mapsto> \<lparr>m_value = 1, m_rawValue = 1, m_unit = ''hPa''\<rparr>],
       sensor_entries = [''sensor co2'' \<mapsto> \<lparr>m_value = 400, m_rawValue = 7, m_unit = ''ppm''\<rparr>],
       spectrometer = \<lparr>wavelength = [], spectrum = [], maxFixedIntensity = 0\<rparr>\<rparr>,
      \<lparr>timestamp = ''2016.04.07-12:00:07'',
       weather_station = [''airPressure'' \<mapsto> \<lparr>m_value = 2, m_rawValue = 2, m_unit = ''hPa''\<rparr>],
       sensor_entries = [''sensor co2'' \<mapsto> \<lparr>m_value = 410, m_rawValue = 8, m_unit = ''ppm''\<rparr>],
       spectrometer = \<lparr>wavelength = [], spectrum = [], maxFixedIntensity = 0\<rparr>\<rparr>,
      \<lparr>timestamp = ''2016.04.07-12:00:07'',
       weather_station = [''airPressure'' \<mapsto> \<lparr>m_value = 3, m_rawValue = 3, m_unit = ''hPa''\<rparr>],
       sensor_entries = [''sensor co2'' \<mapsto> \<lparr>m_value = 420, m_rawValue = 9, m_unit = ''ppm''\<rparr>],
       spectrometer = \<lparr>wavelength = [], spectrum = [], maxFixedIntensity = 0\<rparr>\<rparr>]
     ''airPressure''
   = Inr ([100, 200, 300], [''pascal'', ''pascal'', ''pascal''], [1, 2, 3]) \<and>
   sensorVariables
     [\<lparr>timestamp = ''2016.04.07-12:00:07'',
       weather_station = [''airPressure'' \<mapsto> \<lparr>m_value = 1, m_rawValue = 1, m_unit = ''hPa''\<rparr>],
       sensor_entries = [''sensor co2'' \<mapsto> \<lparr>m_value = 400, m_rawValue = 7, m_unit = ''ppm''\<rparr>],
       spectrometer = \<lparr>wavelength = [], spectrum = [], maxFixedIntensity = 0\<rparr>\<rparr>,
      \<lparr>timestamp = ''2016.04.07-12:00:07'',
       weather_station = [''airPressure'' \<mapsto> \<lparr>m_value = 2, m_rawValue = 2, m_unit = ''hPa''\<rparr>],
       sensor_entries = [''sensor co2'' \<mapsto> \<lparr>m_value = 410, m_rawValue = 8, m_unit = ''ppm''\<rparr>],
       spectrometer = \<lparr>wavelength = [], spectrum = [], maxFixedIntensity = 0\<rparr>\<rparr>,
      \<lparr>timestamp = ''2016.04.07-12:00:07'',
       weather_station = [''airPressure'' \<mapsto> \<lparr>m_value = 3, m_rawValue = 3, m_unit = ''hPa''\<rparr>],
       sensor_entries = [''sensor co2'' \<mapsto> \<lparr>m_value = 420, m_rawValue = 9, m_unit = ''ppm''\<rparr>],
       spectrometer = \<lparr>wavelength = [], spectrum = [], maxFixedIntensity = 0\<rparr>\<rparr>]
     ''sensor co2''
   = Inr ([400 / 1000000, 410 / 1000000, 420 / 1000000],
          [''mol mol-1'', ''mol mol-1'', ''mol mol-1''], [7, 8, 9])"
proof -
  let ?b = "[\<lparr>timestamp = ''2016.04.07-12:00:07'',
       weather_station = [''airPressure'' \<mapsto> \<lparr>m_value = 1, m_rawValue = 1, m_unit = ''hPa''\<rparr>],
       sensor_entries = [''sensor co2'' \<mapsto> \<lparr>m_value = 400, m_rawValue = 7, m_unit = ''ppm''\<rparr>],
       spectrometer = \<lparr>wavelength = [], spectrum = [], maxFixedIntensity = 0\<rparr>\<rparr>,
      \<lparr>timestamp = ''2016.04.07-12:00:07'',
       weather_station = [''airPressure'' \<mapsto> \<lparr>m_value = 2, m_rawValue = 2, m_unit = ''hPa''\<rparr>],
       sensor_entries = [''sensor co2'' \<mapsto> \<lparr>m_value = 410, m_rawValue = 8, m_unit = ''ppm''\<rparr>],
       spectrometer = \<lparr>wavelength = [], spectrum = [], maxFixedIntensity = 0\<rparr>\<rparr>,
      \<lparr>timestamp = ''2016.04.07-12:00:07'',
       weather_station = [''airPressure'' \<mapsto> \<lparr>m_value = 3, m_rawValue = 3, m_unit = ''hPa''\<rparr>],
       sensor_entries = [''sensor co2'' \<mapsto> \<lparr>m_value = 420, m_rawValue = 9, m_unit = ''ppm''\<rparr>],
       spectrometer = \<lparr>wavelength = [], spectrum = [], maxFixedIntensity = 0\<rparr>\<rparr>]"
  have ne: "?b \<noteq> []" by simp
  have w: "\<forall>r\<in>set ?b. weather_station r ''airPressure'' \<noteq> None" by simp
  have s: "\<forall>r\<in>set ?b. sensor_entries r ''sensor co2'' \<noteq> None" by simp
  have uw: "UNIT_DICTIONARY (m_unit (the (weather_station (hd ?b) ''airPressure'')))
            = Some (UnitDict ''hectopascal'' ''pascal'' 100)"
    by (simp add: UNIT_DICTIONARY_def)
  have us: "UNIT_DICTIONARY (m_unit (the (sensor_entries (hd ?b) ''sensor co2'')))
            = Some (UnitDict ''part per million'' ''mol mol-1'' (1 / 1000000))"
    by (simp add: UNIT_DICTIONARY_def)
  from field_extractor_values [of ?b "''airPressure''" "''hectopascal''" "''pascal''" 100] ne w uw
  have 1: "getListOfWeatherStationValue ?b ''airPressure''
           = Inr ([100, 200, 300], [''pascal'', ''pascal'', ''pascal''], [1, 2, 3])"
    by (simp add: numeral_3_eq_3)
  from field_extractor_values [of ?b "''sensor co2''" "''part per million''" "''mol mol-1''"
        "1 / 1000000"] ne s us
  have 2: "sensorVariables ?b ''sensor co2''
           = Inr ([400 / 1000000, 410 / 1000000, 420 / 1000000],
                  [''mol mol-1'', ''mol mol-1'', ''mol mol-1''], [7, 8, 9])"
    by (simp add: numeral_3_eq_3)
  from 1 2 show ?thesis by simp
qed

text \<open>
  C6.  The empty label is a key of the unit table, but its value is the string \<^verbatim>\<open>''\<close>
  and not an entry with scale \<open>1\<close>: extracting a field whose unit is the empty string
  raises \<^verbatim>\<open>TypeError\<close> at \<^verbatim>\<open>converting_to["power"]\<close>.
\<close>

theorem empty_unit_raises_TypeError:
  "UNIT_DICTIONARY [] = Some (UnitStr []) \<and>
   getListOfWeatherStationValue
     [\<lparr>timestamp = ''2016.04.07-12:00:07'',
       weather_station = [''sunDirection'' \<mapsto> \<lparr>m_value = 5, m_rawValue = 5, m_unit = []\<rparr>],
       sensor_entries = Map.empty,
       spectrometer = \<lparr>wavelength = [], spectrum = [], maxFixedIntensity = 0\<rparr>\<rparr>]
     ''sunDirection''
   = Inl TypeError"
  by (simp add: getListOfWeatherStationValue_def list_of_value_def UNIT_DICTIONARY_def)

text \<open>
  C7 as stated fails in one respect: the exception is the dictionary's \<^verbatim>\<open>KeyError\<close>, which
  carries the label only.  Two different fields with the same unknown label produce the
  same error value, so the error does not name the field.
\<close>

theorem unknown_unit_error_omits_field_counterexample:
  "getListOfWeatherStationValue
     [\<lparr>timestamp = ''2016.04.07-12:00:07'',
       weather_station = [''temperature'' \<mapsto> \<lparr>m_value = 5, m_rawValue = 5, m_unit = ''furlong''\<rparr>],
       sensor_entries = Map.empty,
       spectrometer = \<lparr>wavelength = [], spectrum = [], maxFixedIntensity = 0\<rparr>\<rparr>]
     ''temperature''
   = Inl (KeyError ''furlong'') \<and>
   getListOfWeatherStationValue
     [\<lparr>timestamp = ''2016.04.07-12:00:07'',
       weather_station = [''airPressure'' \<mapsto> \<lparr>m_value = 5, m_rawValue = 5, m_unit = ''furlong''\<rparr>],
       sensor_entries = Map.empty,
       spectrometer = \<lparr>wavelength = [], spectrum = [], maxFixedIntensity = 0\<rparr>\<rparr>]
     ''airPressure''
   = Inl (KeyError ''furlong'')"
  by (simp add: getListOfWeatherStationValue_def list_of_value_def UNIT_DICTIONARY_def)

text \<open>
  C7, amended.  When the unit recorded on the first reading is not a key of the unit
  table, both extractors raise \<^verbatim>\<open>KeyError\<close> carrying that label; no value is converted.
\<close>

theorem unknown_unit_raises_KeyError:
  "(weather_station r0 name = Some m0 \<and> UNIT_DICTIONARY (m_unit m0) = None \<longrightarrow>
      getListOfWeatherStationValue (r0 # rs) name = Inl (KeyError (m_unit m0))) \<and>
   (sensor_entries r0 name = Some m0 \<and> UNIT_DICTIONARY (m_unit m0) = None \<longrightarrow>
      sensorVariables (r0 # rs) name = Inl (KeyError (m_unit m0)))"
  unfolding getListOfWeatherStationValue_def sensorVariables_def
  using list_of_value_unknown_unit [of weather_station r0 name m0 rs]
        list_of_value_unknown_unit [of sensor_entries r0 name m0 rs]
  by blast

theorem unknown_unit_raises_KeyError_witness:
  "UNIT_DICTIONARY ''furlong'' = None \<and>
   getListOfWeatherStationValue
     [\<lparr>timestamp = ''2016.04.07-12:00:07'',
       weather_station = [''k'' \<mapsto> \<lparr>m_value = 5, m_rawValue = 5, m_unit = ''furlong''\<rparr>],
       sensor_entries = [''k'' \<mapsto> \<lparr>m_value = 5, m_rawValue = 5, m_unit = ''furlong''\<rparr>],
       spectrometer = \<lparr>wavelength = [], spectrum = [], maxFixedIntensity = 0\<rparr>\<rparr>] ''k'' = Inl (KeyError ''furlong'') \<and>
   sensorVariables
     [\<lparr>timestamp = ''2016.04.07-12:00:07'',
       weather_station = [''k'' \<mapsto> \<lparr>m_value = 5, m_rawValue = 5, m_unit = ''furlong''\<rparr>],
       sensor_entries = [''k'' \<mapsto> \<lparr>m_value = 5, m_rawValue = 5, m_unit = ''furlong''\<rparr>],
       spectrometer = \<lparr>wavelength = [], spectrum = [], maxFixedIntensity = 0\<rparr>\<rparr>] ''k'' = Inl (KeyError ''furlong'')"
proof -
  let ?m = "\<lparr>m_value = 5, m_rawValue = 5, m_unit = ''furlong''\<rparr>"
  let ?r = "\<lparr>timestamp = ''2016.04.07-12:00:07'',
       weather_station = [''k'' \<mapsto> \<lparr>m_value = 5, m_rawValue = 5, m_unit = ''furlong''\<rparr>],
       sensor_entries = [''k'' \<mapsto> \<lparr>m_value = 5, m_rawValue = 5, m_unit = ''furlong''\<rparr>],
       spectrometer = \<lparr>wavelength = [], spectrum = [], maxFixedIntensity = 0\<rparr>\<rparr>"
  have u: "UNIT_DICTIONARY (m_unit ?m) = None" by (simp add: UNIT_DICTIONARY_def)
  have w: "weather_station ?r ''k'' = Some ?m" by simp
  have s: "sensor_entries ?r ''k'' = Some ?m" by simp
  from unknown_unit_raises_KeyError [of ?r "''k''" ?m "[]"] u w s
  show ?thesis by simp
qed

subsection \<open>Spectrometer extraction\<close>

text \<open>
  C5 as stated fails: a reading whose spectrum has two entries against a wavelength grid
  of three is returned as it is, without an error.
\<close>

theorem handleSpectrometer_mismatch_counterexample:
  "length [10, 20 :: rat] \<noteq> length [1, 2, 3 :: rat] \<and>
   handleSpectrometer
     [\<lparr>timestamp = ''2016.04.07-12:00:07'', weather_station = Map.empty,
       sensor_entries = Map.empty,
       spectrometer = \<lparr>wavelength = [1, 2, 3], spectrum = [10, 20], maxFixedIntensity = 16383\<rparr>\<rparr>]
   = Inr ([1, 2, 3], [[10, 20]], [16383])"
  by (simp add: handleSpectrometer_def)

text \<open>
  C5, amended.  On every non-empty batch the spectrometer extraction succeeds and returns
  the wavelength grid of the first reading, the spectrum of every reading unchanged and the
  saturation thresholds, whatever the lengths of the spectra.
\<close>

theorem handleSpectrometer_no_shape_check:
  "JSONArray \<noteq> [] \<Longrightarrow>
   handleSpectrometer JSONArray =
     Inr (wavelength (spectrometer (hd JSONArray)),
          map (\<lambda>r. spectrum (spectrometer r)) JSONArray,
          map (\<lambda>r. maxFixedIntensity (spectrometer r)) JSONArray)"
  by (cases JSONArray) (simp_all add: handleSpectrometer_def)

theorem handleSpectrometer_no_shape_check_witness:
  "handleSpectrometer
     [\<lparr>timestamp = ''2016.04.07-12:00:07'', weather_station = Map.empty,
       sensor_entries = Map.empty,
       spectrometer = \<lparr>wavelength = [1, 2], spectrum = [10, 20, 30], maxFixedIntensity = 16383\<rparr>\<rparr>,
      \<lparr>timestamp = ''2016.04.07-12:00:12'', weather_station = Map.empty,
       sensor_entries = Map.empty,
       spectrometer = \<lparr>wavelength = [5], spectrum = [], maxFixedIntensity = 16383\<rparr>\<rparr>]
   = Inr ([1, 2], [[10, 20, 30], []], [16383, 16383])"
  using handleSpectrometer_no_shape_check
    [of "[\<lparr>timestamp = ''2016.04.07-12:00:07'', weather_station = Map.empty,
       sensor_entries = Map.empty,
       spectrometer = \<lparr>wavelength = [1, 2], spectrum = [10, 20, 30], maxFixedIntensity = 16383\<rparr>\<rparr>,
      \<lparr>timestamp = ''2016.04.07-12:00:12'', weather_station = Map.empty,
       sensor_entries = Map.empty,
       spectrometer = \<lparr>wavelength = [5], spectrum = [], maxFixedIntensity = 16383\<rparr>\<rparr>]"]
  by simp

subsection \<open>Time normalisation\<close>

lemma lt10_cases: "n < 10 \<Longrightarrow> n \<in> {0, 1, 2, 3, 4, 5, 6, 7, 8, 9 :: nat}"
  unfolding insert_iff empty_iff by arith

lemma mod10_le9: "(n::nat) mod 10 \<le> 9"
proof -
  have "n mod 10 < 10" by (rule mod_less_divisor) simp
  then show ?thesis by simp
qed

lemma of_char_digit_char: "n < 10 \<Longrightarrow> (of_char (digit_char n) :: nat) = 48 + n"
  using lt10_cases [of n] by (auto simp: digit_char_def)

lemma digit_val_digit_char: "n < 10 \<Longrightarrow> digit_val (digit_char n) = n"
  by (simp add: digit_val_def of_char_digit_char)

lemma in_range_digit_char:
  "n < 10 \<Longrightarrow> in_range lo hi (digit_char n) \<longleftrightarrow> (of_char lo \<le> 48 + n \<and> 48 + n \<le> of_char hi)"
  by (simp add: in_range_def of_char_digit_char)

lemma digit_char_eq: "n < 10 \<Longrightarrow> digit_char n = c \<longleftrightarrow> 48 + n = (of_char c :: nat)"
proof -
  assume n: "n < 10"
  have "digit_char n = c \<longleftrightarrow> (of_char (digit_char n) :: nat) = of_char c"
    by (simp only: of_char_eq_iff)
  with n show ?thesis by (simp add: of_char_digit_char)
qed

lemma two_digits_pad2:
  assumes "n < 100"
  shows "two_digits p q (pad2 n @ rest) =
         (if p (digit_char (n div 10)) \<and> q (digit_char (n mod 10)) then Some (n, rest) else None)"
proof -
  from assms have "n div 10 < 10" "n mod 10 < 10" by auto
  then show ?thesis by (simp add: two_digits_def pad2_def digit_val_digit_char)
qed

lemma directive_m_pad2: "1 \<le> m \<Longrightarrow> m \<le> 12 \<Longrightarrow> directive_m (pad2 m @ rest) = Some (m, rest)"
proof -
  assume a: "1 \<le> m" "m \<le> 12"
  then have b: "m < 100" "m div 10 < 10" "m mod 10 < 10" by auto
  from a have "m div 10 = 1 \<and> m mod 10 \<le> 2 \<or> m div 10 = 0 \<and> 1 \<le> m mod 10 \<and> m mod 10 \<le> 9"
    by presburger
  then show ?thesis
    using b by (auto simp: directive_m_def two_digits_pad2 in_range_digit_char digit_char_eq)
qed


lemma directive_d_pad2: "1 \<le> d \<Longrightarrow> d \<le> 31 \<Longrightarrow> directive_d (pad2 d @ rest) = Some (d, rest)"
proof -
  assume a: "1 \<le> d" "d \<le> 31"
  then have b: "d < 100" "d div 10 < 10" "d mod 10 < 10" by auto
  have c: "d mod 10 \<le> 9" by (rule mod10_le9)
  from a have "d div 10 = 3 \<and> d mod 10 \<le> 1 \<or> d div 10 = 1 \<or> d div 10 = 2
      \<or> d div 10 = 0 \<and> 1 \<le> d mod 10"
    by presburger
  then show ?thesis
    using b c by (auto simp: directive_d_def two_digits_pad2 in_range_digit_char digit_char_eq)
qed

lemma directive_H_pad2: "H < 24 \<Longrightarrow> directive_H (pad2 H @ rest) = Some (H, rest)"
proof -
  assume a: "H < 24"
  then have b: "H < 100" "H div 10 < 10" "H mod 10 < 10" by auto
  have c: "H mod 10 \<le> 9" by (rule mod10_le9)
  from a have "H div 10 = 2 \<and> H mod 10 \<le> 3 \<or> H div 10 = 0 \<or> H div 10 = 1"
    by presburger
  then show ?thesis
    using b c by (auto simp: directive_H_def two_digits_pad2 in_range_digit_char digit_char_eq)
qed

lemma directive_M_pad2: "M < 60 \<Longrightarrow> directive_M (pad2 M @ rest) = Some (M, rest)"
proof -
  assume a: "M < 60"
  then have b: "M < 100" "M div 10 < 10" "M mod 10 < 10" "M div 10 \<le> 5" by auto
  have c: "M mod 10 \<le> 9" by (rule mod10_le9)
  from b c show ?thesis
    by (simp add: directive_M_def two_digits_pad2 in_range_digit_char digit_char_eq)
qed

lemma directive_S_pad2: "S < 60 \<Longrightarrow> directive_S (pad2 S @ rest) = Some (S, rest)"
proof -
  assume a: "S < 60"
  then have b: "S < 100" "S div 10 < 10" "S mod 10 < 10" "S div 10 \<le> 5" by auto
  have c: "S mod 10 \<le> 9" by (rule mod10_le9)
  from b c show ?thesis
    by (simp add: directive_S_def two_digits_pad2 in_range_digit_char digit_char_eq)
qed

lemma directive_Y_pad4: "Y \<le> 9999 \<Longrightarrow> directive_Y (pad4 Y @ rest) = Some (Y, rest)"
proof -
  assume a: "Y \<le> 9999"
  then have b: "Y div 1000 < 10" "Y div 100 mod 10 < 10" "Y div 10 mod 10 < 10" "Y mod 10 < 10"
    by auto
  have c: "1000 * (Y div 1000) + 100 * (Y div 100 mod 10) + 10 * (Y div 10 mod 10) + Y mod 10 = Y"
  proof -
    define q1 q2 q3 where "q1 = Y div 10" and "q2 = Y div 100" and "q3 = Y div 1000"
    have q2: "q2 = q1 div 10" and q3: "q3 = q2 div 10"
      by (simp_all add: q1_def q2_def q3_def div_mult2_eq)
    have "Y = 10 * q1 + Y mod 10" by (simp add: q1_def)
    moreover have "q1 = 10 * q2 + q1 mod 10" by (simp add: q2)
    moreover have "q2 = 10 * q3 + q2 mod 10" by (simp add: q3)
    ultimately have "1000 * q3 + 100 * (q2 mod 10) + 10 * (q1 mod 10) + Y mod 10 = Y"
      by linarith
    then show ?thesis by (simp only: q1_def q2_def q3_def)
  qed
  from b c show ?thesis
    by (simp add: directive_Y_def pad4_def in_range_digit_char digit_val_digit_char mod10_le9)
qed

lemma days_in_month_le_31: "1 \<le> m \<Longrightarrow> m \<le> 12 \<Longrightarrow> days_in_month y m \<le> 31"
proof -
  assume "1 \<le> m" "m \<le> 12"
  then have "m \<in> {1, 2, 3, 4, 5, 6, 7, 8, 9, 10, 11, 12}"
    unfolding insert_iff empty_iff by arith
  then show ?thesis by (auto simp: days_in_month_def)
qed

lemma match_format_format_timestamp:
  assumes "Y \<le> 9999" "1 \<le> m" "m \<le> 12" "1 \<le> d" "d \<le> 31" "H < 24" "M < 60" "S < 60"
  shows "match_format (format_timestamp Y m d H M S) = Some (Y, m, d, H, M, S)"
proof -
  have S: "directive_S (pad2 S) = Some (S, [])"
    using directive_S_pad2 [OF assms(8), of "[]"] by simp
  show ?thesis
    unfolding match_format_def format_timestamp_def
    using assms S
    by (simp add: directive_Y_pad4 directive_m_pad2 directive_d_pad2 directive_H_pad2
        directive_M_pad2 literal_def)
qed

text \<open>
  C4.  For every timestamp of the fixed format \<^verbatim>\<open>YYYY.MM.DD-HH:MM:SS\<close> that names a date
  of the calendar (year \<open>1\<close> to \<open>9999\<close>) and a time of day, \<^verbatim>\<open>translateTime\<close> returns the
  whole number of days between the date and 1970-01-01 plus
  \<open>(hour * 3600 + minute * 60 + second) / 86400\<close>.
\<close>

theorem translateTime_fixed_format:
  assumes "1 \<le> Y" "Y \<le> 9999" "1 \<le> m" "m \<le> 12" "1 \<le> d" "d \<le> days_in_month Y m"
    and "H < 24" "M < 60" "S < 60"
  shows "translateTime (format_timestamp Y m d H M S) =
         Inr (of_int (int (ymd2ord Y m d) - int (ymd2ord 1970 1 1))
              + of_nat (H * 3600 + M * 60 + S) / 86400)"
proof -
  from assms have d31: "d \<le> 31" using days_in_month_le_31 [of m Y] by linarith
  have mf: "match_format (format_timestamp Y m d H M S) = Some (Y, m, d, H, M, S)"
    using assms d31 by (intro match_format_format_timestamp) auto
  have sp: "strptime (format_timestamp Y m d H M S) = Inr (Y, m, d, H, M, S)"
    using assms by (simp add: strptime_def mf)
  show ?thesis
    by (simp add: translateTime_def sp Let_def field_simps)
qed

theorem translateTime_fixed_format_witness:
  "format_timestamp 1970 1 2 0 0 0 = ''1970.01.02-00:00:00'' \<and>
   translateTime ''1970.01.02-00:00:00'' = Inr 1 \<and>
   format_timestamp 1970 1 1 12 0 0 = ''1970.01.01-12:00:00'' \<and>
   translateTime ''1970.01.01-12:00:00'' = Inr (1 / 2) \<and>
   format_timestamp 2016 4 7 12 0 7 = ''2016.04.07-12:00:07'' \<and>
   translateTime ''2016.04.07-12:00:07'' = Inr (16898 + (12 * 3600 + 7) / 86400)"
proof -
  have f1: "format_timestamp 1970 1 2 0 0 0 = ''1970.01.02-00:00:00''"
    and f2: "format_timestamp 1970 1 1 12 0 0 = ''1970.01.01-12:00:00''"
    and f3: "format_timestamp 2016 4 7 12 0 7 = ''2016.04.07-12:00:07''"
    by (simp_all add: format_timestamp_def pad2_def pad4_def digit_char_def)
  have dm: "days_in_month 1970 1 = 31" "days_in_month 2016 4 = 30"
    by (simp_all add: days_in_month_def)
  have o: "ymd2ord 1970 1 1 = 719163" "ymd2ord 1970 1 2 = 719164" "ymd2ord 2016 4 7 = 736061"
    by (simp_all add: ymd2ord_def days_before_year_def days_before_month_def is_leap_def Let_def)
  have t1: "translateTime ''1970.01.02-00:00:00'' = Inr 1"
    using translateTime_fixed_format [of 1970 1 2 0 0 0] unfolding f1 dm o by simp
  have t2: "translateTime ''1970.01.01-12:00:00'' = Inr (1 / 2)"
    using translateTime_fixed_format [of 1970 1 1 12 0 0] unfolding f2 dm o by simp
  have t3: "translateTime ''2016.04.07-12:00:07'' = Inr (16898 + (12 * 3600 + 7) / 86400)"
    using translateTime_fixed_format [of 2016 4 7 12 0 7] unfolding f3 dm o by simp
  from f1 f2 f3 t1 t2 t3 show ?thesis by simp
qed

subsection \<open>Downwelling flux\<close>

lemma sum_list_map2_nth:
  "length xs = length ys \<Longrightarrow>
   sum_list (map2 (\<lambda>f d. f * d) xs ys) = (\<Sum>j<length xs. xs ! j * ys ! (j::nat) :: rat)"
proof -
  assume l: "length xs = length ys"
  have "sum_list (map2 (\<lambda>f d. f * d) xs ys)
        = (\<Sum>j = 0..<length (map2 (\<lambda>f d. f * d) xs ys). map2 (\<lambda>f d. f * d) xs ys ! j)"
    by (rule sum_list_sum_nth)
  also have "\<dots> = (\<Sum>j = 0..<length xs. xs ! j * ys ! j)"
    using l by (intro sum.cong) auto
  finally show ?thesis by (simp add: atLeast0LessThan)
qed

text \<open>
  C2.  When the calibration curve and the deltas are as long as the wavelength grid and
  every spectrum has one count per channel, the flux computation returns, for every
  reading \<open>i\<close> and channel \<open>j\<close>,
  \<open>spectralFlux[i][j] = spectra[i][j] * calibrationCurve[j] / (t * A)\<close>, and
  \<open>scalarFlux[i]\<close> is the sum over the channels \<open>j\<close> of \<open>spectralFlux[i][j] * deltas[j]\<close>.
\<close>

theorem downwelling_flux_formula:
  assumes "length calibrationCurve = length wavelengths"
    and "length deltas = length wavelengths"
    and "\<forall>row\<in>set spectra. length row = length wavelengths"
  shows "\<exists>spectralFlux scalarFlux.
           calculateDownwellingSpectralFlux wavelengths spectra deltas calibrationCurve t A
             = Inr (spectralFlux, scalarFlux) \<and>
           length spectralFlux = length spectra \<and> length scalarFlux = length spectra \<and>
           (\<forall>i<length spectra.
              length (spectralFlux ! i) = length wavelengths \<and>
              (\<forall>j<length wavelengths.
                 spectralFlux ! i ! j = spectra ! i ! j * calibrationCurve ! j / (t * A)) \<and>
              scalarFlux ! i = (\<Sum>j<length wavelengths. spectralFlux ! i ! j * deltas ! j))"
proof -
  define sf where
    "sf = map (\<lambda>row. map2 (\<lambda>s c. s * c / (t * A)) row calibrationCurve) spectra"
  define sc where "sc = map (\<lambda>flux. sum_list (map2 (\<lambda>f d. f * d) flux deltas)) sf"
  have eq: "calculateDownwellingSpectralFlux wavelengths spectra deltas calibrationCurve t A
            = Inr (sf, sc)"
    using assms(1) by (simp add: calculateDownwellingSpectralFlux_def Let_def sf_def sc_def)
  have len: "length sf = length spectra" "length sc = length spectra"
    by (simp_all add: sf_def sc_def)
  have rows: "length (sf ! i) = length wavelengths \<and>
              (\<forall>j<length wavelengths. sf ! i ! j = spectra ! i ! j * calibrationCurve ! j / (t * A)) \<and>
              sc ! i = (\<Sum>j<length wavelengths. sf ! i ! j * deltas ! j)"
    if i: "i < length spectra" for i
  proof -
    from i assms(3) have lr: "length (spectra ! i) = length wavelengths" by simp
    have sfi: "sf ! i = map2 (\<lambda>s c. s * c / (t * A)) (spectra ! i) calibrationCurve"
      using i by (simp add: sf_def)
    have l1: "length (sf ! i) = length wavelengths" using lr assms(1) by (simp add: sfi)
    have l2: "\<forall>j<length wavelengths. sf ! i ! j = spectra ! i ! j * calibrationCurve ! j / (t * A)"
      using lr assms(1) by (simp add: sfi)
    have "sc ! i = sum_list (map2 (\<lambda>f d. f * d) (sf ! i) deltas)"
      using i len by (simp add: sc_def)
    also have "\<dots> = (\<Sum>j<length (sf ! i). sf ! i ! j * deltas ! j)"
      using l1 assms(2) by (intro sum_list_map2_nth) simp
    finally have l3: "sc ! i = (\<Sum>j<length wavelengths. sf ! i ! j * deltas ! j)"
      by (simp only: l1)
    from l1 l2 l3 show ?thesis by blast
  qed
  from eq len rows show ?thesis by blast
qed

theorem downwelling_flux_formula_witness:
  "calculateDownwellingSpectralFlux [500] [[10]] [1] [2] 1 1 = Inr ([[20]], [20]) \<and>
   (\<exists>spectralFlux scalarFlux.
      calculateDownwellingSpectralFlux [500] [[10]] [1] [2] 1 1 = Inr (spectralFlux, scalarFlux) \<and>
      spectralFlux ! 0 ! 0 = 10 * 2 / (1 * 1) \<and>
      scalarFlux ! 0 = spectralFlux ! 0 ! 0 * 1)"
proof -
  have e: "calculateDownwellingSpectralFlux [500] [[10]] [1] [2] 1 1 = Inr ([[20]], [20])"
    by (simp add: calculateDownwellingSpectralFlux_def)
  from downwelling_flux_formula [of "[2]" "[500]" "[1]" "[[10]]" 1 1]
  obtain sf sc where
    r: "calculateDownwellingSpectralFlux [500] [[10]] [1] [2] 1 1 = Inr (sf, sc)"
    and f: "sf ! 0 ! 0 = [[10]] ! 0 ! 0 * [2] ! 0 / (1 * 1)"
    and s: "sc ! 0 = (\<Sum>j<length [500 :: rat]. sf ! 0 ! j * [1] ! j)"
    by auto
  from f have f': "sf ! 0 ! 0 = 10 * 2 / (1 * 1)" by simp
  from s have s': "sc ! 0 = sf ! 0 ! 0 * 1" by simp
  from e r f' s' show ?thesis by blast
qed

end
